theory Spec2Isabelle
  imports Complex_Main "HOL-Library.Product_Lexorder" "HOL-Library.Multiset"
begin

section \<open>The expense tracker: a shallow embedding of expense\_tracker.py\<close>

text \<open>
  The program keeps expense records in a CSV file and offers four commands: add, delete,
  list and summarize. Every command loads the whole file, works on the list of records
  and, for add and delete, writes the whole file back.

  What is modelled, and at which level:
  \<^item> Python strings are \<open>string\<close>; a \<open>char\<close> stands for the code point of the same
    number, so the model covers text in the range 0..255. In that range the decimal
    digits are the ASCII digits and the white space is the set \<open>is_space\<close> below.
  \<^item> Python integers are \<open>int\<close>. The conversion between integers and text has the limit
    of 4300 digits of the interpreter (\<open>sys.int_max_str_digits\<close>): \<open>int\<close>, \<open>str\<close> and the
    formatting of an integer raise ValueError beyond it.
  \<^item> \<open>decimal.Decimal\<close> is the datatype \<open>decimal\<close>: sign, coefficient and exponent, or one
    of the special values. Addition follows the arithmetic of the default context:
    precision 28, rounding half-even, Emax 999999, Emin -999999, with the traps
    InvalidOperation and Overflow enabled. The constructor is exact and accepts what the
    widest context of the module represents without rounding.
  \<^item> The file is modelled after \<open>csv.reader\<close> and before \<open>csv.writer\<close>: a file is the list
    of its rows and a row is the list of its cells. Quoting and line ends belong to the
    csv module and are not modelled. \<open>csv.DictReader\<close> and \<open>csv.DictWriter\<close> are
    modelled on top of that: the first row names the columns, blank rows are dropped,
    a short row has the value \<open>None\<close> in the columns it lacks.
  \<^item> An exception that the program does not catch is a value \<open>Inl e\<close> of the result.
  \<^item> A command returns the data that it prints; the layout of the printed lines is not
    modelled, an exception raised while printing is.
\<close>

subsection \<open>Text\<close>

text \<open>The characters that \<open>str.strip\<close>, \<open>int\<close> and \<open>Decimal\<close> treat as white space.\<close>

definition is_space :: "char \<Rightarrow> bool" where
  "is_space c = (of_char c \<in> set [9, 10, 11, 12, 13, 28, 29, 30, 31, 32, 133, 160 :: nat])"

text \<open>\<open>s.strip()\<close>\<close>

definition py_strip :: "string \<Rightarrow> string" where
  "py_strip s = rev (dropWhile is_space (rev (dropWhile is_space s)))"

definition is_digit :: "char \<Rightarrow> bool" where
  "is_digit c = (48 \<le> (of_char c :: nat) \<and> (of_char c :: nat) \<le> 57)"

definition digit_val :: "char \<Rightarrow> nat" where
  "digit_val c = of_char c - 48"

definition digit_char :: "nat \<Rightarrow> char" where
  "digit_char d = char_of (48 + d)"

text \<open>The value of a string of decimal digits, most significant digit first.\<close>

definition nat_of_digits :: "string \<Rightarrow> nat" where
  "nat_of_digits s = foldl (\<lambda>a c. 10 * a + digit_val c) 0 s"

text \<open>The decimal digits of a natural number, without leading zeros.\<close>

fun str_nat :: "nat \<Rightarrow> string" where
  "str_nat n = (if n < 10 then [digit_char n] else str_nat (n div 10) @ [digit_char (n mod 10)])"

text \<open>The number of decimal digits of a natural number.\<close>

definition ndigits :: "nat \<Rightarrow> nat" where
  "ndigits c = length (str_nat c)"

text \<open>The greatest number of digits that the interpreter converts: \<open>sys.int_max_str_digits\<close>.\<close>

definition int_max_str_digits :: int where
  "int_max_str_digits = 4300"

text \<open>
  \<open>str(i)\<close> for an integer, and likewise the formatting of an integer in an f-string;
  \<open>None\<close> stands for ValueError, raised for more than 4300 digits.
\<close>

definition py_str_int :: "int \<Rightarrow> string option" where
  "py_str_int i =
     (if int (ndigits (nat \<bar>i\<bar>)) \<le> int_max_str_digits
      then Some (if i < 0 then CHR ''-'' # str_nat (nat (- i)) else str_nat (nat i))
      else None)"

text \<open>
  The digits of an integer literal as \<open>int(s)\<close> accepts them: at least one digit, and single
  underscores between digits.
\<close>

fun int_body :: "string \<Rightarrow> bool" where
  "int_body [] = False"
| "int_body [c] = is_digit c"
| "int_body (c # d # r) = (is_digit c \<and> (if d = CHR ''_'' then int_body r else int_body (d # r)))"

text \<open>An optional sign in front of a literal: the sign is negative, and the rest.\<close>

fun split_sign :: "string \<Rightarrow> bool \<times> string" where
  "split_sign [] = (False, [])"
| "split_sign (c # r) =
     (if c = CHR ''-'' then (True, r) else if c = CHR ''+'' then (False, r) else (False, c # r))"

text \<open>
  The white space that \<open>int\<close> removes at both ends of its argument. The separators 28 to
  31, which \<open>str.strip\<close> removes, are not among it.
\<close>

definition is_int_space :: "char \<Rightarrow> bool" where
  "is_int_space c = (of_char c \<in> set [9, 10, 11, 12, 13, 32, 133, 160 :: nat])"

definition int_strip :: "string \<Rightarrow> string" where
  "int_strip s = rev (dropWhile is_int_space (rev (dropWhile is_int_space s)))"

text \<open>
  \<open>int(s)\<close>; \<open>None\<close> stands for ValueError, raised for a string that is not an integer
  literal and for a literal of more than 4300 digits.
\<close>

definition py_int :: "string \<Rightarrow> int option" where
  "py_int s =
     (let (neg, body) = split_sign (int_strip s) in
      if int_body body
      then (let ds = filter (\<lambda>c. c \<noteq> CHR ''_'') body in
            if int (length ds) \<le> int_max_str_digits
            then Some (if neg then - int (nat_of_digits ds) else int (nat_of_digits ds))
            else None)
      else None)"

text \<open>\<open>s.split("-")\<close>: the parts between the separators, at least one part.\<close>

fun py_split :: "char \<Rightarrow> string \<Rightarrow> string list" where
  "py_split sep [] = [[]]"
| "py_split sep (c # r) =
     (if c = sep then [] # py_split sep r
      else (case py_split sep r of p # ps \<Rightarrow> (c # p) # ps | [] \<Rightarrow> [[c]]))"

subsection \<open>Dates\<close>

text \<open>\<open>datetime.date\<close>: years 1 to 9999 of the proleptic Gregorian calendar.\<close>

record date =
  year :: nat
  month :: nat
  day :: nat

definition is_leap :: "nat \<Rightarrow> bool" where
  "is_leap y = (y mod 4 = 0 \<and> (y mod 100 \<noteq> 0 \<or> y mod 400 = 0))"

definition days_in_month :: "nat \<Rightarrow> nat \<Rightarrow> nat" where
  "days_in_month y m =
     (if m = 2 then (if is_leap y then 29 else 28)
      else if m = 4 \<or> m = 6 \<or> m = 9 \<or> m = 11 then 30 else 31)"

definition valid_date :: "date \<Rightarrow> bool" where
  "valid_date d =
     (1 \<le> year d \<and> year d \<le> 9999 \<and> 1 \<le> month d \<and> month d \<le> 12 \<and>
      1 \<le> day d \<and> day d \<le> days_in_month (year d) (month d))"

text \<open>The constructor \<open>date(y, m, d)\<close>; \<open>None\<close> stands for ValueError.\<close>

definition mk_date :: "nat \<Rightarrow> nat \<Rightarrow> nat \<Rightarrow> date option" where
  "mk_date y m d =
     (let dt = \<lparr>year = y, month = m, day = d\<rparr> in if valid_date dt then Some dt else None)"

text \<open>\<open>date.min\<close>\<close>

definition date_min :: date where
  "date_min = \<lparr>year = 1, month = 1, day = 1\<rparr>"

text \<open>Dates compare as the triples of year, month and day do.\<close>

definition date_key :: "date \<Rightarrow> nat \<times> nat \<times> nat" where
  "date_key d = (year d, month d, day d)"

text \<open>
  The directive \<open>%m\<close> of \<open>strptime\<close> matches \<open>1[0-2]|0[1-9]|[1-9]\<close>, the directive \<open>%d\<close>
  matches \<open>3[0-1]|[1-2]\d|0[1-9]|[1-9]| [1-9]\<close>, and \<open>%Y\<close> matches four digits.
\<close>

definition in_range :: "char \<Rightarrow> nat \<Rightarrow> nat \<Rightarrow> bool" where
  "in_range c lo hi = (is_digit c \<and> lo \<le> digit_val c \<and> digit_val c \<le> hi)"

fun month_field :: "string \<Rightarrow> nat option" where
  "month_field [a] = (if in_range a 1 9 then Some (digit_val a) else None)"
| "month_field [a, b] =
     (if a = CHR ''1'' \<and> in_range b 0 2 then Some (10 + digit_val b)
      else if a = CHR ''0'' \<and> in_range b 1 9 then Some (digit_val b)
      else None)"
| "month_field _ = None"

fun day_field :: "string \<Rightarrow> nat option" where
  "day_field [a] = (if in_range a 1 9 then Some (digit_val a) else None)"
| "day_field [a, b] =
     (if a = CHR ''3'' \<and> in_range b 0 1 then Some (30 + digit_val b)
      else if in_range a 1 2 \<and> is_digit b then Some (10 * digit_val a + digit_val b)
      else if a = CHR ''0'' \<and> in_range b 1 9 then Some (digit_val b)
      else if a = CHR '' '' \<and> in_range b 1 9 then Some (digit_val b)
      else None)"
| "day_field _ = None"

text \<open>\<open>datetime.strptime(s, "%Y-%m-%d").date()\<close>; \<open>None\<close> stands for ValueError.\<close>

definition strptime_ymd :: "string \<Rightarrow> date option" where
  "strptime_ymd s =
     (let ytext = take 4 s; r = drop 4 s in
      if length ytext = 4 \<and> list_all is_digit ytext \<and> r \<noteq> [] \<and> hd r = CHR ''-''
      then (let mtext = takeWhile (\<lambda>c. c \<noteq> CHR ''-'') (tl r);
                r2 = dropWhile (\<lambda>c. c \<noteq> CHR ''-'') (tl r) in
            if r2 = [] then None
            else (case (month_field mtext, day_field (tl r2)) of
                    (Some m, Some d) \<Rightarrow> mk_date (nat_of_digits ytext) m d
                  | _ \<Rightarrow> None))
      else None)"

text \<open>A number in a field of at least \<open>w\<close> digits, padded with zeros: \<open>%04d\<close>, \<open>%02d\<close>.\<close>

definition pad_nat :: "nat \<Rightarrow> nat \<Rightarrow> string" where
  "pad_nat w n = replicate (w - length (str_nat n)) (CHR ''0'') @ str_nat n"

text \<open>\<open>d.isoformat()\<close>\<close>

definition isoformat :: "date \<Rightarrow> string" where
  "isoformat d = pad_nat 4 (year d) @ ''-'' @ pad_nat 2 (month d) @ ''-'' @ pad_nat 2 (day d)"

subsection \<open>Exceptions\<close>

text \<open>The exceptions that the program does not catch.\<close>

datatype py_error = AttributeError | FileNotFoundError | InvalidOperation | Overflow | ValueError

subsection \<open>Decimal numbers\<close>

text \<open>
  A finite number \<open>Dec s c e\<close> has the value \<open>(-1)^s * c * 10^e\<close>; the sign of a zero and the
  exponent are part of the number, as in Python. A NaN carries its payload (0 for none).
\<close>

datatype decimal =
    Dec (dsign: bool) (dcoeff: nat) (dexp: int)
  | Infinity bool
  | QNaN bool nat
  | SNaN bool nat

fun is_finite :: "decimal \<Rightarrow> bool" where
  "is_finite (Dec s c e) = True"
| "is_finite _ = False"

text \<open>The number that a finite decimal denotes.\<close>

fun dec_val :: "decimal \<Rightarrow> rat" where
  "dec_val (Dec s c e) = (if s then - 1 else 1) * of_nat c * 10 powi e"
| "dec_val _ = 0"

definition py_lower :: "char \<Rightarrow> char" where
  "py_lower c =
     (if 65 \<le> (of_char c :: nat) \<and> (of_char c :: nat) \<le> 90 then char_of (of_char c + 32 :: nat) else c)"

text \<open>The exponent part of a numeric string: nothing, or \<open>E\<close>, an optional sign and digits.\<close>

fun exp_field :: "string \<Rightarrow> int option" where
  "exp_field [] = Some 0"
| "exp_field (c # r) =
     (if c = CHR ''e'' \<or> c = CHR ''E''
      then (let (neg, ds) = split_sign r in
            if ds \<noteq> [] \<and> list_all is_digit ds
            then Some (if neg then - int (nat_of_digits ds) else int (nat_of_digits ds))
            else None)
      else None)"

text \<open>
  The limits of the decimal module: \<open>MAX_EMAX\<close>, \<open>MIN_ETINY\<close> and \<open>MAX_PREC\<close>. The constructor
  is exact: it raises InvalidOperation for a number that the widest context would have to
  round, clamp or give up as too large.
\<close>

definition MAX_EMAX :: int where "MAX_EMAX = 999999999999999999"

definition MIN_ETINY :: int where "MIN_ETINY = - 1999999999999999997"

definition MAX_PREC :: int where "MAX_PREC = 999999999999999999"

definition representable :: "nat \<Rightarrow> int \<Rightarrow> bool" where
  "representable c e =
     (MIN_ETINY \<le> e \<and> (if c = 0 then e \<le> MAX_EMAX else e + int (ndigits c) - 1 \<le> MAX_EMAX) \<and>
      int (ndigits c) \<le> MAX_PREC)"

text \<open>
  A finite numeric string: digits, an optional point and digits, an optional exponent, with
  at least one digit before the exponent.
\<close>

definition finite_literal :: "bool \<Rightarrow> string \<Rightarrow> decimal option" where
  "finite_literal neg body =
     (let ip = takeWhile is_digit body;
          r1 = dropWhile is_digit body;
          has_dot = (r1 \<noteq> [] \<and> hd r1 = CHR ''.'');
          fp = (if has_dot then takeWhile is_digit (tl r1) else []);
          r2 = (if has_dot then dropWhile is_digit (tl r1) else r1)
      in if ip = [] \<and> fp = [] then None
         else (case exp_field r2 of
                 None \<Rightarrow> None
               | Some x \<Rightarrow>
                   if representable (nat_of_digits (ip @ fp)) (x - int (length fp))
                   then Some (Dec neg (nat_of_digits (ip @ fp)) (x - int (length fp)))
                   else None))"

text \<open>\<open>Inf\<close>, \<open>Infinity\<close>, \<open>NaN\<close> and \<open>sNaN\<close> with an optional payload, in any case.\<close>

definition special_literal :: "bool \<Rightarrow> string \<Rightarrow> decimal option" where
  "special_literal neg body =
     (let l = map py_lower body in
      if l = ''inf'' \<or> l = ''infinity'' then Some (Infinity neg)
      else if take 3 l = ''nan'' \<and> list_all is_digit (drop 3 l)
        then Some (QNaN neg (nat_of_digits (drop 3 l)))
      else if take 4 l = ''snan'' \<and> list_all is_digit (drop 4 l)
        then Some (SNaN neg (nat_of_digits (drop 4 l)))
      else None)"

text \<open>
  \<open>Decimal(s)\<close>: white space around the string and every underscore are removed first.
  \<open>None\<close> stands for InvalidOperation.
\<close>

definition py_decimal :: "string \<Rightarrow> decimal option" where
  "py_decimal s =
     (let (neg, body) = split_sign (filter (\<lambda>c. c \<noteq> CHR ''_'') (py_strip s)) in
      case special_literal neg body of
        Some d \<Rightarrow> Some d
      | None \<Rightarrow> finite_literal neg body)"

definition sign_text :: "bool \<Rightarrow> string" where
  "sign_text s = (if s then ''-'' else [])"

text \<open>\<open>str(d)\<close>: plain notation where it is short, scientific notation otherwise.\<close>

fun py_str_decimal :: "decimal \<Rightarrow> string" where
  "py_str_decimal (Infinity s) = sign_text s @ ''Infinity''"
| "py_str_decimal (QNaN s p) = sign_text s @ ''NaN'' @ (if p = 0 then [] else str_nat p)"
| "py_str_decimal (SNaN s p) = sign_text s @ ''sNaN'' @ (if p = 0 then [] else str_nat p)"
| "py_str_decimal (Dec s c e) =
     (let ds = str_nat c;
          leftdigits = e + int (length ds);
          dotplace = (if e \<le> 0 \<and> leftdigits > - 6 then leftdigits else 1);
          intpart =
            (if dotplace \<le> 0 then ''0''
             else if dotplace \<ge> int (length ds)
               then ds @ replicate (nat (dotplace - int (length ds))) (CHR ''0'')
             else take (nat dotplace) ds);
          fracpart =
            (if dotplace \<le> 0 then ''.'' @ replicate (nat (- dotplace)) (CHR ''0'') @ ds
             else if dotplace \<ge> int (length ds) then []
             else ''.'' @ drop (nat dotplace) ds);
          etext =
            (if leftdigits = dotplace then []
             else ''E'' @ (if leftdigits - dotplace < 0 then ''-'' else ''+'')
                    @ str_nat (nat \<bar>leftdigits - dotplace\<bar>))
      in sign_text s @ intpart @ fracpart @ etext)"

text \<open>The default context.\<close>

definition prec :: nat where "prec = 28"

definition Emax :: int where "Emax = 999999"

definition Emin :: int where "Emin = - 999999"

definition Etiny :: int where "Etiny = Emin - int prec + 1"

definition Etop :: int where "Etop = Emax - int prec + 1"

text \<open>The coefficient without its last \<open>k\<close> digits, rounded half-even.\<close>

definition round_half_even :: "nat \<Rightarrow> nat \<Rightarrow> nat" where
  "round_half_even c k =
     (let p = 10 ^ k; q = c div p; r = c mod p in
      if 2 * r > p \<or> (2 * r = p \<and> odd q) then q + 1 else q)"

text \<open>
  Fitting a finite result into the context: a coefficient of more than \<open>prec\<close> digits is
  rounded, an exponent below \<open>Etiny\<close> is raised to it, and a number above \<open>Emax\<close> raises
  Overflow.
\<close>

definition dec_fix :: "bool \<Rightarrow> nat \<Rightarrow> int \<Rightarrow> py_error + decimal" where
  "dec_fix s c e =
     (if c = 0 then Inr (Dec s 0 (min (max e Etiny) Emax))
      else (let exp_min = int (ndigits c) + e - int prec in
            if exp_min > Etop then Inl Overflow
            else (let em = max exp_min Etiny in
                  if e < em
                  then (let q = round_half_even c (nat (em - e)) in
                        if q \<ge> 10 ^ prec
                        then (if em + 1 > Etop then Inl Overflow
                              else Inr (Dec s (q div 10) (em + 1)))
                        else Inr (Dec s q em))
                  else Inr (Dec s c e))))"

definition signed :: "bool \<Rightarrow> nat \<Rightarrow> int" where
  "signed s c = (if s then - int c else int c)"

text \<open>
  \<open>a + b\<close>: a signaling NaN raises InvalidOperation, a quiet NaN is the result (the first
  one, its payload cut to the precision), infinities of opposite signs raise
  InvalidOperation; the sum of two finite numbers is the exact sum, written with the
  smaller of the two exponents and then fitted into the context.
\<close>

fun dec_add :: "decimal \<Rightarrow> decimal \<Rightarrow> py_error + decimal" where
  "dec_add (SNaN s p) b = Inl InvalidOperation"
| "dec_add a (SNaN s p) = Inl InvalidOperation"
| "dec_add (QNaN s p) b = Inr (QNaN s (p mod 10 ^ prec))"
| "dec_add a (QNaN s p) = Inr (QNaN s (p mod 10 ^ prec))"
| "dec_add (Infinity sa) (Infinity sb) =
     (if sa \<noteq> sb then Inl InvalidOperation else Inr (Infinity sa))"
| "dec_add (Infinity sa) b = Inr (Infinity sa)"
| "dec_add a (Infinity sb) = Inr (Infinity sb)"
| "dec_add (Dec sa ca ea) (Dec sb cb eb) =
     (let e = min ea eb;
          v = signed sa ca * 10 ^ nat (ea - e) + signed sb cb * 10 ^ nat (eb - e)
      in dec_fix (if v = 0 then sa \<and> sb else v < 0) (nat \<bar>v\<bar>) e)"

text \<open>A sum that starts from \<open>acc\<close> and adds the numbers from left to right.\<close>

fun sum_from :: "decimal \<Rightarrow> decimal list \<Rightarrow> py_error + decimal" where
  "sum_from acc [] = Inr acc"
| "sum_from acc (x # xs) =
     (case dec_add acc x of Inl err \<Rightarrow> Inl err | Inr acc' \<Rightarrow> sum_from acc' xs)"

text \<open>\<open>sum(xs)\<close>: the sum starts from the integer 0, which is the decimal \<open>0\<close>.\<close>

definition py_sum :: "decimal list \<Rightarrow> py_error + decimal" where
  "py_sum xs = sum_from (Dec False 0 0) xs"

subsection \<open>Expense records\<close>

text \<open>
  The program keeps a record as a dictionary with the six keys below; every dictionary it
  builds has all of them. The field \<open>id'\<close> is the key \<open>id\<close>.
\<close>

record expense =
  id' :: int
  date :: "date option"
  category :: string
  amount :: decimal
  currency :: string
  description :: string

subsection \<open>The file\<close>

text \<open>
  The rows of the file as \<open>csv.reader\<close> returns them, the header row first. The store is
  \<open>None\<close> while the file does not exist.
\<close>

type_synonym csv_file = "string list list"

type_synonym store = "csv_file option"

definition FIELDNAMES :: "string list" where
  "FIELDNAMES = [''id'', ''date'', ''category'', ''amount'', ''currency'', ''description'']"

definition ensure_file :: "store \<Rightarrow> store" where
  "ensure_file st = (case st of None \<Rightarrow> Some [FIELDNAMES] | Some f \<Rightarrow> Some f)"

text \<open>
  A row as \<open>csv.DictReader\<close> yields it: the names of the first row paired with the cells.
  A column that the row is too short for has the value \<open>None\<close>; cells beyond the named
  columns go under a key that the program never reads. Where a name occurs twice the
  later column wins.
\<close>

type_synonym row_dict = "(string \<times> string option) list"

definition dict_row :: "string list \<Rightarrow> string list \<Rightarrow> row_dict" where
  "dict_row names cells =
     zip names (map Some cells @ replicate (length names - length cells) None)"

definition dict_reader :: "csv_file \<Rightarrow> row_dict list" where
  "dict_reader f =
     (case f of [] \<Rightarrow> [] | names # rows \<Rightarrow> map (dict_row names) (filter (\<lambda>r. r \<noteq> []) rows))"

text \<open>\<open>row.get(k)\<close>: \<open>None\<close> where the key is absent, \<open>Some None\<close> where its value is \<open>None\<close>.\<close>

definition row_get :: "row_dict \<Rightarrow> string \<Rightarrow> string option option" where
  "row_get d k = map_of (rev d) k"

text \<open>\<open>row.get(k, "").strip()\<close>: the value \<open>None\<close> has no method \<open>strip\<close>.\<close>

definition get_text :: "row_dict \<Rightarrow> string \<Rightarrow> py_error + string" where
  "get_text d k =
     (case row_get d k of
        None \<Rightarrow> Inr (py_strip [])
      | Some None \<Rightarrow> Inl AttributeError
      | Some (Some s) \<Rightarrow> Inr (py_strip s))"

text \<open>
  The body of the loop of \<open>load_expenses\<close> for one row: \<open>None\<close> where the row is skipped,
  the record otherwise, or the exception that ends the load.
\<close>

definition row_expense :: "row_dict \<Rightarrow> (py_error + expense) option" where
  "row_expense d =
     (case row_get d ''id'' of
        None \<Rightarrow> None
      | Some None \<Rightarrow> None
      | Some (Some s) \<Rightarrow>
          if s = [] then None
          else (case py_int s of
                  None \<Rightarrow> None
                | Some eid \<Rightarrow> Some
                   (case get_text d ''date'' of Inl err \<Rightarrow> Inl err | Inr d_str \<Rightarrow>
                    case get_text d ''amount'' of Inl err \<Rightarrow> Inl err | Inr amt_str \<Rightarrow>
                    case get_text d ''category'' of Inl err \<Rightarrow> Inl err | Inr cat \<Rightarrow>
                    case get_text d ''currency'' of Inl err \<Rightarrow> Inl err | Inr cur \<Rightarrow>
                    case get_text d ''description'' of Inl err \<Rightarrow> Inl err | Inr desc \<Rightarrow>
                      Inr \<lparr>id' = eid,
                           date = (if d_str \<noteq> [] then strptime_ymd d_str else None),
                           category = (if cat = [] then ''uncategorized'' else cat),
                           amount =
                             (if amt_str \<noteq> []
                              then (case py_decimal amt_str of
                                      Some a \<Rightarrow> a
                                    | None \<Rightarrow> Dec False 0 0)
                              else Dec False 0 0),
                           currency = (if cur = [] then ''USD'' else cur),
                           description = desc\<rparr>)))"

fun load_rows :: "row_dict list \<Rightarrow> py_error + expense list" where
  "load_rows [] = Inr []"
| "load_rows (d # ds) =
     (case row_expense d of
        None \<Rightarrow> load_rows ds
      | Some (Inl err) \<Rightarrow> Inl err
      | Some (Inr e) \<Rightarrow>
          (case load_rows ds of Inl err \<Rightarrow> Inl err | Inr es \<Rightarrow> Inr (e # es)))"

text \<open>\<open>load_expenses()\<close>: the store after the call, and the records or the exception.\<close>

definition load_expenses :: "store \<Rightarrow> store \<times> (py_error + expense list)" where
  "load_expenses st =
     (let st' = ensure_file st in
      (st', case st' of None \<Rightarrow> Inl FileNotFoundError | Some f \<Rightarrow> load_rows (dict_reader f)))"

text \<open>The row of a record; \<open>str(e["id"])\<close> raises ValueError for an id of too many digits.\<close>

definition expense_row :: "expense \<Rightarrow> py_error + string list" where
  "expense_row e =
     (case py_str_int (id' e) of
        None \<Rightarrow> Inl ValueError
      | Some s \<Rightarrow>
          Inr [s,
               (case date e of Some d \<Rightarrow> isoformat d | None \<Rightarrow> []),
               category e,
               py_str_decimal (amount e),
               currency e,
               description e])"

text \<open>
  The loop of \<open>save_expenses\<close>: the rows written, and the exception that ended the loop if
  there was one. The rows before the exception are in the file when it is closed.
\<close>

fun write_rows :: "expense list \<Rightarrow> string list list \<times> py_error option" where
  "write_rows [] = ([], None)"
| "write_rows (e # es) =
     (case expense_row e of
        Inl err \<Rightarrow> ([], Some err)
      | Inr r \<Rightarrow> (case write_rows es of (rs, x) \<Rightarrow> (r # rs, x)))"

text \<open>
  \<open>save_expenses(expenses)\<close>: the file is replaced by the header and one row per record;
  the result is the store and the exception raised, if any.
\<close>

definition save_expenses :: "expense list \<Rightarrow> store \<Rightarrow> store \<times> py_error option" where
  "save_expenses es st = (case write_rows es of (rs, x) \<Rightarrow> (Some (FIELDNAMES # rs), x))"

subsection \<open>The commands\<close>

text \<open>\<open>next_id(expenses)\<close>: 1, or one more than the greatest id.\<close>

fun next_id :: "expense list \<Rightarrow> int" where
  "next_id [] = 1"
| "next_id (e # es) = fold max (map id' es) (id' e) + 1"

text \<open>The five answers that \<open>add_expense\<close> asks for, as \<open>input\<close> returns them.\<close>

record add_input =
  date_input :: string
  category_input :: string
  amount_input :: string
  currency_input :: string
  description_input :: string

datatype add_result = Added expense | Invalid_date | Invalid_amount | Add_error py_error

text \<open>\<open>add_expense()\<close>, with the date of today as a parameter.\<close>

definition add_expense :: "store \<Rightarrow> date \<Rightarrow> add_input \<Rightarrow> store \<times> add_result" where
  "add_expense st today inp =
     (case load_expenses st of
        (st1, Inl err) \<Rightarrow> (st1, Add_error err)
      | (st1, Inr expenses) \<Rightarrow>
          (let eid = next_id expenses;
               di = py_strip (date_input inp);
               di' = (if di = [] then isoformat today else di)
           in case strptime_ymd di' of
                None \<Rightarrow> (st1, Invalid_date)
              | Some dt \<Rightarrow>
                  (let cat = py_strip (category_input inp);
                       cat' = (if cat = [] then ''uncategorized'' else cat);
                       amt_raw = py_strip (amount_input inp)
                   in case py_decimal amt_raw of
                        None \<Rightarrow> (st1, Invalid_amount)
                      | Some amt \<Rightarrow>
                          (let cur = py_strip (currency_input inp);
                               cur' = (if cur = [] then ''USD'' else cur);
                               new_expense =
                                 \<lparr>id' = eid, date = Some dt, category = cat', amount = amt,
                                  currency = cur', description = py_strip (description_input inp)\<rparr>
                           in case save_expenses (expenses @ [new_expense]) st1 of
                                (st2, None) \<Rightarrow> (st2, Added new_expense)
                              | (st2, Some err) \<Rightarrow> (st2, Add_error err)))))"

text \<open>The key of the sort: \<open>x["date"] or date.min\<close>.\<close>

definition sort_date :: "expense \<Rightarrow> nat \<times> nat \<times> nat" where
  "sort_date e = (case date e of None \<Rightarrow> date_key date_min | Some d \<Rightarrow> date_key d)"

text \<open>
  \<open>sorted(xs, key=k, reverse=True)\<close>: the list is reversed, sorted by a stable ascending
  sort and reversed again, so that elements with equal keys keep their order.
\<close>

definition sorted_reverse :: "('a \<Rightarrow> 'k::linorder) \<Rightarrow> 'a list \<Rightarrow> 'a list" where
  "sorted_reverse k xs = rev (sort_key k (rev xs))"

text \<open>\<open>xs[:n]\<close>: a negative \<open>n\<close> counts from the end.\<close>

definition slice_to :: "int \<Rightarrow> 'a list \<Rightarrow> 'a list" where
  "slice_to n xs = (if 0 \<le> n then take (nat n) xs else take (length xs - nat (- n)) xs)"

text \<open>
  The outcome of \<open>list_expenses\<close>: the message that there are no expenses, the rows of the
  table in the order printed, the rows printed before an exception and the exception, or
  the exception of the load.
\<close>

datatype list_result =
    No_expenses_found
  | Listing "expense list"
  | Listing_stopped "expense list" py_error
  | List_error py_error

text \<open>A row is printed with its id formatted as text, which raises beyond 4300 digits.\<close>

definition printable :: "expense \<Rightarrow> bool" where
  "printable e = (py_str_int (id' e) \<noteq> None)"

definition print_rows :: "expense list \<Rightarrow> list_result" where
  "print_rows rows =
     (if list_all printable rows then Listing rows
      else Listing_stopped (takeWhile printable rows) ValueError)"

text \<open>\<open>list_expenses(expenses, limit)\<close>\<close>

definition list_expenses :: "store \<Rightarrow> expense list option \<Rightarrow> int \<Rightarrow> store \<times> list_result" where
  "list_expenses st arg limit =
     (case (case arg of None \<Rightarrow> load_expenses st | Some es \<Rightarrow> (st, Inr es)) of
        (st1, Inl err) \<Rightarrow> (st1, List_error err)
      | (st1, Inr expenses) \<Rightarrow>
          if expenses = [] then (st1, No_expenses_found)
          else (st1, print_rows (slice_to limit (sorted_reverse sort_date expenses))))"

datatype delete_result =
  No_expenses_to_delete | Invalid_id | Not_found | Deleted int | Delete_error py_error

text \<open>
  \<open>delete_expense()\<close>, with the answer to its prompt as a parameter. The table of up to 50
  records is printed before the prompt.
\<close>

definition delete_expense :: "store \<Rightarrow> string \<Rightarrow> store \<times> delete_result" where
  "delete_expense st answer =
     (case load_expenses st of
        (st1, Inl err) \<Rightarrow> (st1, Delete_error err)
      | (st1, Inr expenses) \<Rightarrow>
          if expenses = [] then (st1, No_expenses_to_delete)
          else (case snd (list_expenses st1 (Some expenses) 50) of
                  Listing_stopped rows err \<Rightarrow> (st1, Delete_error err)
                | List_error err \<Rightarrow> (st1, Delete_error err)
                | _ \<Rightarrow>
                   (case py_int (py_strip answer) of
                      None \<Rightarrow> (st1, Invalid_id)
                    | Some eid \<Rightarrow>
                        (let new_expenses = filter (\<lambda>e. id' e \<noteq> eid) expenses in
                         if length new_expenses = length expenses then (st1, Not_found)
                         else (case save_expenses new_expenses st1 of
                                 (st2, None) \<Rightarrow> (st2, Deleted eid)
                               | (st2, Some err) \<Rightarrow> (st2, Delete_error err))))))"

text \<open>The scope of a summary, which the title names.\<close>

datatype scope = All_time | Month int int

record summary =
  title :: scope
  total :: decimal
  total_currency :: string
  by_cat :: "(string \<times> decimal) list"

text \<open>
  The outcome of \<open>summarize_expenses\<close>. \<open>Summary_head\<close> stands for the title and the total
  with its currency, printed before the exception that the sort of the subtotals raised.
\<close>

datatype summarize_result =
    No_expenses_to_summarize
  | Invalid_month_format
  | No_expenses_for scope
  | Summary summary
  | Summary_head scope decimal string py_error
  | Summarize_error py_error

text \<open>
  The first two parts of the month argument as integers; \<open>None\<close> stands for the exception
  that the program catches.
\<close>

definition parse_month :: "string \<Rightarrow> (int \<times> int) option" where
  "parse_month m =
     (case py_split (CHR ''-'') m of
        p0 # p1 # rest \<Rightarrow>
          (case py_int p0 of
             None \<Rightarrow> None
           | Some y \<Rightarrow> (case py_int p1 of None \<Rightarrow> None | Some mon \<Rightarrow> Some (y, mon)))
      | _ \<Rightarrow> None)"

definition in_month :: "int \<Rightarrow> int \<Rightarrow> expense \<Rightarrow> bool" where
  "in_month y mon e =
     (case date e of None \<Rightarrow> False | Some d \<Rightarrow> int (year d) = y \<and> int (month d) = mon)"

text \<open>
  \<open>by_cat.setdefault(cat, Decimal("0")); by_cat[cat] += amount\<close> on a dictionary that
  keeps its keys in the order of their first insertion.
\<close>

fun add_to_cat :: "string \<Rightarrow> decimal \<Rightarrow> (string \<times> decimal) list \<Rightarrow> py_error + (string \<times> decimal) list" where
  "add_to_cat k a [] =
     (case dec_add (Dec False 0 0) a of Inl err \<Rightarrow> Inl err | Inr v \<Rightarrow> Inr [(k, v)])"
| "add_to_cat k a ((k', v) # r) =
     (if k = k'
      then (case dec_add v a of Inl err \<Rightarrow> Inl err | Inr v' \<Rightarrow> Inr ((k', v') # r))
      else (case add_to_cat k a r of Inl err \<Rightarrow> Inl err | Inr r' \<Rightarrow> Inr ((k', v) # r')))"

fun by_category :: "(string \<times> decimal) list \<Rightarrow> expense list \<Rightarrow> py_error + (string \<times> decimal) list" where
  "by_category acc [] = Inr acc"
| "by_category acc (e # es) =
     (case add_to_cat (category e) (amount e) acc of
        Inl err \<Rightarrow> Inl err
      | Inr acc' \<Rightarrow> by_category acc' es)"

fun is_nan :: "decimal \<Rightarrow> bool" where
  "is_nan (QNaN s p) = True"
| "is_nan (SNaN s p) = True"
| "is_nan _ = False"

text \<open>
  The order of decimal numbers that are not NaN is the order of their values, with the
  infinities at the ends; the key below has that order.
\<close>

fun dec_key :: "decimal \<Rightarrow> int \<times> rat" where
  "dec_key (Infinity s) = (if s then - 1 else 1, 0)"
| "dec_key d = (0, dec_val d)"

text \<open>
  \<open>sorted(by_cat.items(), key=lambda x: x[1], reverse=True)\<close>: with two or more subtotals
  every one of them is compared, and the comparison with a NaN raises InvalidOperation.
\<close>

definition sort_cats :: "(string \<times> decimal) list \<Rightarrow> py_error + (string \<times> decimal) list" where
  "sort_cats cats =
     (if 2 \<le> length cats \<and> list_ex (\<lambda>(k, v). is_nan v) cats then Inl InvalidOperation
      else Inr (sorted_reverse (\<lambda>(k, v). dec_key v) cats))"

text \<open>
  \<open>summarize_expenses(month)\<close>. The subtotals of a summary are in the order printed, the
  greatest first.
\<close>

definition summarize_expenses :: "store \<Rightarrow> string option \<Rightarrow> store \<times> summarize_result" where
  "summarize_expenses st month_arg =
     (case load_expenses st of
        (st1, Inl err) \<Rightarrow> (st1, Summarize_error err)
      | (st1, Inr expenses) \<Rightarrow>
          if expenses = [] then (st1, No_expenses_to_summarize)
          else (case (case month_arg of
                        None \<Rightarrow> Some (expenses, All_time)
                      | Some m \<Rightarrow>
                          if m = [] then Some (expenses, All_time)
                          else (case parse_month m of
                                  None \<Rightarrow> None
                                | Some (y, mon) \<Rightarrow>
                                    Some (filter (in_month y mon) expenses, Month y mon))) of
                  None \<Rightarrow> (st1, Invalid_month_format)
                | Some (filtered, ttl) \<Rightarrow>
                    (case filtered of
                       [] \<Rightarrow> (st1, No_expenses_for ttl)
                     | first # others \<Rightarrow>
                         (case py_sum (map amount filtered) of
                            Inl err \<Rightarrow> (st1, Summarize_error err)
                          | Inr tot \<Rightarrow>
                              (case by_category [] filtered of
                                 Inl err \<Rightarrow> (st1, Summarize_error err)
                               | Inr cats \<Rightarrow>
                                   (case sort_cats cats of
                                      Inl err \<Rightarrow>
                                        (st1, Summary_head ttl tot (currency first) err)
                                    | Inr sorted_cats \<Rightarrow>
                                        (st1, Summary \<lparr>title = ttl, total = tot,
                                                      total_currency = currency first,
                                                      by_cat = sorted_cats\<rparr>)))))))"

subsection \<open>Notions of the specification\<close>

text \<open>
  The records that a summary of the given scope covers: \<open>filtered\<close> in
  \<open>summarize_expenses\<close>, as a function of the loaded records and the title.
\<close>

definition filtered_of :: "expense list \<Rightarrow> scope \<Rightarrow> expense list" where
  "filtered_of es ttl = (case ttl of All_time \<Rightarrow> es | Month y mon \<Rightarrow> filter (in_month y mon) es)"

text \<open>
  The form \<open>YYYY-MM\<close> in the words of the specification: four digits, a hyphen and two
  digits. This definition follows the specification, not the program.
\<close>

definition yyyy_mm_form :: "string \<Rightarrow> bool" where
  "yyyy_mm_form s =
     (length s = 7 \<and> list_all is_digit (take 4 s) \<and> s ! 4 = CHR ''-'' \<and>
      list_all is_digit (drop 5 s))"




text \<open>
  The coefficient of a finite decimal when it is written with the exponent \<open>q\<close>, for a
  \<open>q\<close> that is not above its exponent.
\<close>

definition weight :: "int \<Rightarrow> decimal \<Rightarrow> nat" where
  "weight q a = dcoeff a * 10 ^ nat (dexp a - q)"

text \<open>
  Amounts that add up without rounding: all are finite, none has an exponent below \<open>q\<close>,
  \<open>q\<close> is between \<open>Etiny\<close> and 0, and their coefficients at the exponent \<open>q\<close> add up to less
  than \<open>10 ^ prec\<close>.
\<close>

definition fits :: "int \<Rightarrow> decimal list \<Rightarrow> bool" where
  "fits q xs =
     (Etiny \<le> q \<and> q \<le> 0 \<and> list_all (\<lambda>a. is_finite a \<and> q \<le> dexp a) xs \<and>
      sum_list (map (weight q) xs) < 10 ^ prec)"

text \<open>
  The subtotals collected so far: each is finite with an exponent between \<open>q\<close> and 0;
  their coefficients at the exponent \<open>q\<close> added up; and the number that a category stands
  at, which is 0 for a category that has no subtotal yet.
\<close>

definition cats_ok :: "int \<Rightarrow> (string \<times> decimal) list \<Rightarrow> bool" where
  "cats_ok q acc = list_all (\<lambda>(k, v). is_finite v \<and> q \<le> dexp v \<and> dexp v \<le> 0) acc"

definition wsum :: "int \<Rightarrow> (string \<times> decimal) list \<Rightarrow> nat" where
  "wsum q acc = sum_list (map (\<lambda>(k, v). weight q v) acc)"

definition cat_val :: "(string \<times> decimal) list \<Rightarrow> string \<Rightarrow> rat" where
  "cat_val acc k = (case map_of acc k of None \<Rightarrow> 0 | Some v \<Rightarrow> dec_val v)"

text \<open>The rows that a list outcome shows.\<close>

fun shown :: "list_result \<Rightarrow> expense list" where
  "shown (Listing rows) = rows"
| "shown (Listing_stopped rows err) = rows"
| "shown _ = []"

subsection \<open>Sample data\<close>

text \<open>Records, stores and answers on which the theorems below are instantiated.\<close>

definition rec7 :: expense where
  "rec7 = \<lparr>id' = 7, date = Some \<lparr>year = 2025, month = 10, day = 1\<rparr>, category = ''food'',
           amount = Dec False 1010 (- 2), currency = ''USD'', description = ''lunch''\<rparr>"

definition rec3 :: expense where
  "rec3 = \<lparr>id' = 3, date = None, category = ''rent'',
           amount = Dec False 500 0, currency = ''EUR'', description = []\<rparr>"

definition rec8 :: expense where
  "rec8 = \<lparr>id' = 8, date = Some \<lparr>year = 2025, month = 11, day = 2\<rparr>, category = ''uncategorized'',
           amount = Dec False 20 (- 2), currency = ''USD'', description = ''tea''\<rparr>"

definition store73 :: store where
  "store73 = Some [FIELDNAMES,
     [''7'', ''2025-10-01'', ''food'', ''10.10'', ''USD'', ''lunch''],
     [''3'', [], ''rent'', ''500'', ''EUR'', []]]"

definition answers8 :: add_input where
  "answers8 = \<lparr>date_input = [], category_input = '' '', amount_input = ''0.20'',
               currency_input = [], description_input = ''tea ''\<rparr>"

definition rec_undated :: expense where
  "rec_undated = \<lparr>id' = 1, date = None, category = ''misc'',
                  amount = Dec False 1 0, currency = ''USD'', description = []\<rparr>"

definition rec_first_day :: expense where
  "rec_first_day = \<lparr>id' = 2, date = Some \<lparr>year = 1, month = 1, day = 1\<rparr>, category = ''misc'',
                    amount = Dec False 2 0, currency = ''USD'', description = []\<rparr>"

definition store_undated :: store where
  "store_undated = Some [FIELDNAMES,
     [''1'', [], ''misc'', ''1'', ''USD'', []],
     [''2'', ''0001-01-01'', ''misc'', ''2'', ''USD'', []]]"

definition rec_jan :: expense where
  "rec_jan = \<lparr>id' = 1, date = Some \<lparr>year = 2025, month = 1, day = 1\<rparr>, category = ''food'',
              amount = Dec False 100 (- 2), currency = ''USD'', description = []\<rparr>"

definition rec_feb :: expense where
  "rec_feb = \<lparr>id' = 2, date = Some \<lparr>year = 2025, month = 2, day = 1\<rparr>, category = ''food'',
              amount = Dec False 200 (- 2), currency = ''EUR'', description = []\<rparr>"

definition store_jan_feb :: store where
  "store_jan_feb = Some [FIELDNAMES,
     [''1'', ''2025-01-01'', ''food'', ''1.00'', ''USD'', []],
     [''2'', ''2025-02-01'', ''food'', ''2.00'', ''EUR'', []]]"

definition store_short_row :: store where
  "store_short_row = Some [FIELDNAMES,
     [''1'', ''2025-01-01'', ''food'', ''1.00'', ''USD'', []],
     [''7'']]"


definition rec_big :: expense where
  "rec_big = \<lparr>id' = 1, date = Some \<lparr>year = 2025, month = 10, day = 1\<rparr>, category = ''misc'',
              amount = Dec False 10000000000000000000000000000 0, currency = ''USD'',
              description = []\<rparr>"

definition rec_one :: expense where
  "rec_one = \<lparr>id' = 2, date = Some \<lparr>year = 2025, month = 10, day = 31\<rparr>, category = ''misc'',
              amount = Dec False 1 0, currency = ''USD'', description = []\<rparr>"

definition store_big :: store where
  "store_big = Some [FIELDNAMES,
     [''1'', ''2025-10-01'', ''misc'', ''10000000000000000000000000000'', ''USD'', []],
     [''2'', ''2025-10-31'', ''misc'', ''1'', ''USD'', []]]"

definition rec_oct1 :: expense where
  "rec_oct1 = \<lparr>id' = 1, date = Some \<lparr>year = 2025, month = 10, day = 1\<rparr>, category = ''food'',
               amount = Dec False 1010 (- 2), currency = ''USD'', description = []\<rparr>"

definition rec_oct31 :: expense where
  "rec_oct31 = \<lparr>id' = 2, date = Some \<lparr>year = 2025, month = 10, day = 31\<rparr>, category = ''tea'',
                amount = Dec False 20 (- 2), currency = ''USD'', description = []\<rparr>"

definition rec_nov1 :: expense where
  "rec_nov1 = \<lparr>id' = 3, date = Some \<lparr>year = 2025, month = 11, day = 1\<rparr>, category = ''food'',
               amount = Dec False 500 (- 2), currency = ''USD'', description = []\<rparr>"

definition store_oct :: store where
  "store_oct = Some [FIELDNAMES,
     [''1'', ''2025-10-01'', ''food'', ''10.10'', ''USD'', []],
     [''2'', ''2025-10-31'', ''tea'', ''0.20'', ''USD'', []],
     [''3'', ''2025-11-01'', ''food'', ''5.00'', ''USD'', []]]"


definition store738 :: store where
  "store738 = Some [FIELDNAMES,
     [''7'', ''2025-10-01'', ''food'', ''10.10'', ''USD'', ''lunch''],
     [''3'', [], ''rent'', ''500'', ''EUR'', []],
     [''8'', ''2025-11-02'', ''uncategorized'', ''0.20'', ''USD'', ''tea'']]"

definition store7 :: store where
  "store7 = Some [FIELDNAMES,
     [''7'', ''2025-10-01'', ''food'', ''10.10'', ''USD'', ''lunch'']]"

section \<open>Properties\<close>

subsection \<open>Digits and integers as text\<close>

declare str_nat.simps [simp del]

lemma digit_char_props: "d < 10 \<Longrightarrow> is_digit (digit_char d) \<and> digit_val (digit_char d) = d"
  by (simp add: is_digit_def digit_char_def digit_val_def)


lemma str_nat_nonempty: "str_nat n \<noteq> []"
  by (subst str_nat.simps) simp

lemma nat_of_digits_snoc: "nat_of_digits (s @ [c]) = 10 * nat_of_digits s + digit_val c"
  by (simp add: nat_of_digits_def)



lemma nat_of_digits_Nil: "nat_of_digits [] = 0"
  by (simp add: nat_of_digits_def)




lemma digit_not_special:
  "is_digit c \<Longrightarrow> \<not> is_space c \<and> \<not> is_int_space c \<and> c \<noteq> CHR ''_'' \<and> c \<noteq> CHR ''-'' \<and>
     c \<noteq> CHR ''+'' \<and> c \<noteq> CHR ''.'' \<and> c \<noteq> CHR ''E'' \<and> c \<noteq> CHR ''e''"
  by (auto simp: is_digit_def is_space_def is_int_space_def)







lemma str_nat_small: "n < 10 \<Longrightarrow> str_nat n = [digit_char n]"
  by (subst str_nat.simps) simp

lemma str_nat_large: "10 \<le> n \<Longrightarrow> str_nat n = str_nat (n div 10) @ [digit_char (n mod 10)]"
  by (subst str_nat.simps) simp

lemma length_str_nat_le: "0 < k \<Longrightarrow> n < 10 ^ k \<Longrightarrow> length (str_nat n) \<le> k"
proof (induction n arbitrary: k rule: str_nat.induct)
  case (1 n)
  show ?case
  proof (cases "n < 10")
    case True
    then show ?thesis using "1.prems" by (simp add: str_nat_small)
  next
    case False
    from "1.prems" False obtain k' where k: "k = Suc k'" by (cases k) auto
    with "1.prems" False have "0 < k'" by (cases k') auto
    moreover from "1.prems" k have "n div 10 < 10 ^ k'" by (simp add: less_mult_imp_div_less mult.commute)
    ultimately have "length (str_nat (n div 10)) \<le> k'" using "1.IH" False by simp
    then show ?thesis using False k by (simp add: str_nat_large)
  qed
qed

lemma length_str_nat_gt: "10 ^ k \<le> n \<Longrightarrow> k < length (str_nat n)"
proof (induction n arbitrary: k rule: str_nat.induct)
  case (1 n)
  show ?case
  proof (cases "n < 10")
    case True
    with "1.prems" have "(10::nat) ^ k < 10 ^ 1" by simp
    then have "k < 1" by (rule power_less_imp_less_exp [rotated]) simp
    then have "k = 0" by simp
    then show ?thesis using True by (simp add: str_nat_small)
  next
    case False
    show ?thesis
    proof (cases k)
      case 0
      then show ?thesis using str_nat_nonempty [of n] by (cases "str_nat n") auto
    next
      case (Suc k')
      with "1.prems" have "10 ^ k' \<le> n div 10" by (simp add: less_eq_div_iff_mult_less_eq mult.commute)
      then have "k' < length (str_nat (n div 10))" using "1.IH" False by simp
      then show ?thesis using False Suc by (simp add: str_nat_large)
    qed
  qed
qed

lemma ndigits_eq: "10 ^ k \<le> c \<Longrightarrow> c < 10 ^ Suc k \<Longrightarrow> ndigits c = Suc k"
  using length_str_nat_gt [of k c] length_str_nat_le [of "Suc k" c]
  by (simp add: ndigits_def)

lemma ndigits_le: "0 < k \<Longrightarrow> c < 10 ^ k \<Longrightarrow> ndigits c \<le> k"
  by (simp add: ndigits_def length_str_nat_le)

lemma nat_of_digits_bound: "list_all is_digit ds \<Longrightarrow> nat_of_digits ds < 10 ^ length ds"
proof (induction ds rule: rev_induct)
  case Nil
  show ?case by (simp add: nat_of_digits_Nil)
next
  case (snoc c ds)
  then have a: "nat_of_digits ds < 10 ^ length ds" and c: "is_digit c" by simp_all
  from c have "digit_val c \<le> 9" by (auto simp: is_digit_def digit_val_def)
  with a show ?case by (simp add: nat_of_digits_snoc)
qed

lemma int_body_filter:
  "int_body b \<Longrightarrow>
   list_all is_digit (filter (\<lambda>c. c \<noteq> CHR ''_'') b) \<and> filter (\<lambda>c. c \<noteq> CHR ''_'') b \<noteq> []"
  by (induction b rule: int_body.induct) (auto simp: digit_not_special split: if_splits)

lemma ndigits_nat_of_digits:
  assumes "list_all is_digit ds" and "ds \<noteq> []"
  shows "ndigits (nat_of_digits ds) \<le> length ds"
  using assms nat_of_digits_bound [of ds] by (intro ndigits_le) auto

text \<open>What \<open>int\<close> returns, \<open>str\<close> converts.\<close>

lemma py_int_printable:
  assumes "py_int s = Some i"
  shows "py_str_int i \<noteq> None"
proof -
  obtain neg body where sp: "split_sign (int_strip s) = (neg, body)" by force
  let ?ds = "filter (\<lambda>c. c \<noteq> CHR ''_'') body"
  from assms sp have b: "int_body body" and len: "int (length ?ds) \<le> int_max_str_digits"
    and i: "i = (if neg then - int (nat_of_digits ?ds) else int (nat_of_digits ?ds))"
    by (auto simp: py_int_def Let_def split: if_splits)
  from i have "nat \<bar>i\<bar> = nat_of_digits ?ds" by (simp split: if_splits)
  moreover have "ndigits (nat_of_digits ?ds) \<le> length ?ds"
    using int_body_filter [OF b] by (intro ndigits_nat_of_digits) auto
  ultimately have "int (ndigits (nat \<bar>i\<bar>)) \<le> int_max_str_digits" using len by simp
  then show ?thesis by (simp add: py_str_int_def)
qed


subsection \<open>Dates as text\<close>







lemma space_not_digit_char: "k < 10 \<Longrightarrow> digit_char k \<noteq> CHR '' ''"
  using digit_char_props [of k] by (auto simp: is_digit_def)








subsection \<open>Decimal numbers as text\<close>















lemma dropWhile_fixed: "xs = [] \<or> \<not> P (hd xs) \<Longrightarrow> dropWhile P xs = xs"
  by (cases xs) auto








subsection \<open>Loading\<close>

lemma load_expenses_None: "load_expenses None = (Some [FIELDNAMES], Inr [])"
  by (simp add: load_expenses_def ensure_file_def dict_reader_def)

lemma load_nonempty_store:
  assumes "load_expenses st = (st1, Inr es)" and "es \<noteq> []"
  shows "st1 = st"
  using assms
  by (cases st) (auto simp: load_expenses_def ensure_file_def dict_reader_def FIELDNAMES_def)

lemma row_expense_printable: "row_expense d = Some (Inr e) \<Longrightarrow> printable e"
proof -
  assume a: "row_expense d = Some (Inr e)"
  then obtain s where s: "py_int s = Some (id' e)"
    by (auto simp: row_expense_def split: option.splits if_splits sum.splits)
  then show ?thesis unfolding printable_def by (rule py_int_printable)
qed

lemma load_rows_printable: "load_rows ds = Inr es \<Longrightarrow> list_all printable es"
proof (induction ds arbitrary: es)
  case Nil
  then show ?case by simp
next
  case (Cons d ds)
  then show ?case
    by (auto simp: row_expense_printable split: option.splits sum.splits)
qed

lemma load_expenses_printable: "load_expenses st = (st1, Inr es) \<Longrightarrow> list_all printable es"
  by (auto simp: load_expenses_def Let_def load_rows_printable split: option.splits)

subsection \<open>Saving and loading\<close>
















lemma load_store73: "load_expenses store73 = (store73, Inr [rec7, rec3])"
  unfolding store73_def rec7_def rec3_def by code_simp



subsection \<open>Identifiers\<close>

lemma next_id_Max: "es \<noteq> [] \<Longrightarrow> next_id es = Max (id' ` set es) + 1"
  by (cases es) (simp_all add: Max.set_eq_fold [symmetric])

lemma next_id_greater: "e \<in> set es \<Longrightarrow> id' e < next_id es"
proof -
  assume e: "e \<in> set es"
  then have ne: "es \<noteq> []" by auto
  have "id' e \<le> Max (id' ` set es)" using e by simp
  then show ?thesis using next_id_Max [OF ne] by simp
qed

lemma add_expense_Added:
  assumes "load_expenses st = (st1, Inr es)" and "add_expense st today inp = (st2, Added new)"
  shows "id' new = next_id es \<and> save_expenses (es @ [new]) st1 = (st2, None)"
  using assms
  by (auto simp: add_expense_def Let_def split: option.splits prod.splits)

text \<open>
  Claim C5. \<open>next_id\<close> is 1 for the empty list and the greatest id plus one for any other
  list, so it differs from the id of every record of the list. When \<open>add_expense\<close> adds a
  record, the id of the new record is \<open>next_id\<close> of the loaded records: it is the id of
  none of them, and the new record is written after them.
\<close>

theorem next_id_assignment:
  "next_id [] = 1 \<and>
   (es \<noteq> [] \<longrightarrow> next_id es = Max (id' ` set es) + 1) \<and>
   (\<forall>e\<in>set es. id' e \<noteq> next_id es) \<and>
   (load_expenses st = (st1, Inr es') \<and> add_expense st today inp = (st2, Added new) \<longrightarrow>
      id' new = next_id es' \<and> (\<forall>e\<in>set es'. id' e \<noteq> id' new) \<and>
      save_expenses (es' @ [new]) st1 = (st2, None))"
proof (intro conjI impI ballI)
  show "next_id [] = 1" by simp
next
  assume "es \<noteq> []"
  then show "next_id es = Max (id' ` set es) + 1" by (rule next_id_Max)
next
  fix e assume "e \<in> set es"
  then show "id' e \<noteq> next_id es" using next_id_greater [of e es] by simp
next
  assume a: "load_expenses st = (st1, Inr es') \<and> add_expense st today inp = (st2, Added new)"
  then show "id' new = next_id es'" using add_expense_Added by blast
next
  fix e
  assume a: "load_expenses st = (st1, Inr es') \<and> add_expense st today inp = (st2, Added new)"
    and e: "e \<in> set es'"
  from a have "id' new = next_id es'" using add_expense_Added by blast
  then show "id' e \<noteq> id' new" using next_id_greater [OF e] by simp
next
  assume a: "load_expenses st = (st1, Inr es') \<and> add_expense st today inp = (st2, Added new)"
  then show "save_expenses (es' @ [new]) st1 = (st2, None)" using add_expense_Added by blast
qed

lemma add_store73:
  "add_expense store73 \<lparr>year = 2025, month = 11, day = 2\<rparr> answers8 = (store738, Added rec8)"
  unfolding store73_def store738_def rec8_def answers8_def by code_simp

theorem next_id_assignment_witness:
  "[rec7, rec3] \<noteq> [] \<and> next_id [rec7, rec3] = Max (id' ` set [rec7, rec3]) + 1 \<and>
   next_id [rec7, rec3] = 8 \<and> id' rec7 \<noteq> next_id [rec7, rec3] \<and>
   load_expenses store73 = (store73, Inr [rec7, rec3]) \<and>
   add_expense store73 \<lparr>year = 2025, month = 11, day = 2\<rparr> answers8 = (store738, Added rec8) \<and>
   id' rec8 = next_id [rec7, rec3] \<and> id' rec7 \<noteq> id' rec8 \<and> id' rec3 \<noteq> id' rec8 \<and>
   save_expenses ([rec7, rec3] @ [rec8]) store73 = (store738, None)"
  using next_id_assignment [of "[rec7, rec3]" store73 store73 "[rec7, rec3]"
      "\<lparr>year = 2025, month = 11, day = 2\<rparr>" answers8 store738 rec8]
    load_store73 add_store73
  by (simp add: rec7_def rec3_def rec8_def)

subsection \<open>Summaries of an empty collection\<close>

text \<open>
  Claim C10. When the loaded collection is empty, \<open>summarize_expenses\<close> reports that there
  are no expenses to summarize, whatever the month argument is: the argument is not looked
  at, so a malformed month is not reported.
\<close>

theorem summarize_empty_shortcut:
  "load_expenses st = (st1, Inr []) \<Longrightarrow>
   summarize_expenses st month_arg = (st1, No_expenses_to_summarize)"
  by (simp add: summarize_expenses_def)

theorem summarize_empty_shortcut_witness:
  "load_expenses None = (Some [FIELDNAMES], Inr []) \<and>
   summarize_expenses None (Some ''2025-1x'') = (Some [FIELDNAMES], No_expenses_to_summarize) \<and>
   parse_month ''2025-1x'' = None"
proof -
  have l: "load_expenses None = (Some [FIELDNAMES], Inr [])" by (rule load_expenses_None)
  have p: "parse_month ''2025-1x'' = None" by code_simp
  show ?thesis using l p summarize_empty_shortcut [OF l, of "Some ''2025-1x''"] by simp
qed

subsection \<open>Rows that are not well formed\<close>

text \<open>
  Claim C9 at a row that has an id and no other cell. The second data row of the file is
  the single cell \<open>7\<close>: \<open>csv.DictReader\<close> gives the value \<open>None\<close> to the columns that the row
  lacks, \<open>row.get("date", "")\<close> returns that \<open>None\<close>, and the call of \<open>strip\<close> on it raises
  AttributeError. The load ends with the exception, and the first row, which is well
  formed, is not returned.
\<close>

theorem load_short_row_raises:
  "load_expenses store_short_row = (store_short_row, Inl AttributeError)"
  unfolding store_short_row_def by code_simp

subsection \<open>Summaries\<close>

lemma summarize_Summary:
  assumes "load_expenses st = (st1, Inr es)"
    and "summarize_expenses st month_arg = (st2, Summary sm)"
  shows "\<exists>first rest cats. filtered_of es (title sm) = first # rest \<and>
           total_currency sm = currency first \<and>
           py_sum (map amount (first # rest)) = Inr (total sm) \<and>
           by_category [] (first # rest) = Inr cats \<and> sort_cats cats = Inr (by_cat sm) \<and>
           st2 = st"
proof -
  from assms have ne: "es \<noteq> []" by (auto simp: summarize_expenses_def)
  have st: "st1 = st" using assms(1) ne by (rule load_nonempty_store)
  show ?thesis
    using assms ne st
    by (auto simp: summarize_expenses_def filtered_of_def
        simp del: by_category.simps
        split: option.splits list.splits sum.splits if_splits prod.splits)
qed

lemma py_split_no_sep: "sep \<notin> set s \<Longrightarrow> py_split sep s = [s]"
  by (induction s) auto

lemma parse_month_no_dash: "CHR ''-'' \<notin> set m \<Longrightarrow> parse_month m = None"
  by (simp add: parse_month_def py_split_no_sep)

lemma load_store_jan_feb: "load_expenses store_jan_feb = (store_jan_feb, Inr [rec_jan, rec_feb])"
  unfolding store_jan_feb_def rec_jan_def rec_feb_def by code_simp

lemma summarize_jan_feb:
  "summarize_expenses store_jan_feb None =
     (store_jan_feb,
      Summary \<lparr>title = All_time, total = Dec False 300 (- 2), total_currency = ''USD'',
               by_cat = [(''food'', Dec False 300 (- 2))]\<rparr>)"
  unfolding store_jan_feb_def by code_simp

text \<open>
  Claim C8, as amended. The currency of a summary is the currency of the first record that
  the summary covers, in the order of the file: \<open>summarize_expenses\<close> does not sort.
\<close>

theorem summary_currency_first_in_file:
  assumes "load_expenses st = (st1, Inr es)"
    and "summarize_expenses st month_arg = (st2, Summary sm)"
  shows "\<exists>first rest. filtered_of es (title sm) = first # rest \<and>
           total_currency sm = currency first"
  using summarize_Summary [OF assms] by blast

theorem summary_currency_first_in_file_witness:
  "load_expenses store_jan_feb = (store_jan_feb, Inr [rec_jan, rec_feb]) \<and>
   summarize_expenses store_jan_feb None =
     (store_jan_feb,
      Summary \<lparr>title = All_time, total = Dec False 300 (- 2), total_currency = ''USD'',
               by_cat = [(''food'', Dec False 300 (- 2))]\<rparr>) \<and>
   (\<exists>first rest. filtered_of [rec_jan, rec_feb] All_time = first # rest \<and>
      ''USD'' = currency first)"
  using summary_currency_first_in_file [OF load_store_jan_feb summarize_jan_feb]
    load_store_jan_feb summarize_jan_feb
  by simp

text \<open>
  The file has a record of January in dollars and then a record of February in euros. The
  summary shows dollars; the first record by date, latest first, is the one in euros.
\<close>

theorem summary_currency_counterexample:
  "load_expenses store_jan_feb = (store_jan_feb, Inr [rec_jan, rec_feb]) \<and>
   summarize_expenses store_jan_feb None =
     (store_jan_feb,
      Summary \<lparr>title = All_time, total = Dec False 300 (- 2), total_currency = ''USD'',
               by_cat = [(''food'', Dec False 300 (- 2))]\<rparr>) \<and>
   sorted_reverse sort_date [rec_jan, rec_feb] = [rec_feb, rec_jan] \<and>
   currency rec_feb = ''EUR''"
proof -
  have "sorted_reverse sort_date [rec_jan, rec_feb] = [rec_feb, rec_jan]"
    unfolding rec_jan_def rec_feb_def by code_simp
  then show ?thesis
    using load_store_jan_feb summarize_jan_feb by (simp add: rec_feb_def)
qed

subsection \<open>Deletion\<close>

lemma filter_remove_distinct:
  assumes "distinct (map f xs)" and "x \<in> set xs"
  shows "\<exists>ys zs. xs = ys @ x # zs \<and> filter (\<lambda>e. f e \<noteq> f x) xs = ys @ zs"
proof -
  from assms(2) obtain ys zs where s: "xs = ys @ x # zs" by (auto simp: in_set_conv_decomp)
  from assms(1) s have "f x \<notin> f ` set ys" "f x \<notin> f ` set zs" by auto
  then have "\<forall>e\<in>set ys. f e \<noteq> f x" "\<forall>e\<in>set zs. f e \<noteq> f x" by (metis imageI)+
  then have "filter (\<lambda>e. f e \<noteq> f x) ys = ys" "filter (\<lambda>e. f e \<noteq> f x) zs = zs"
    by (simp_all add: filter_id_conv)
  with s show ?thesis by auto
qed

lemma set_slice_to: "set (slice_to n xs) \<subseteq> set xs"
  by (auto simp: slice_to_def dest: in_set_takeD)

lemma set_sorted_reverse: "set (sorted_reverse k xs) = set xs"
  by (simp add: sorted_reverse_def)

lemma print_rows_printable: "list_all printable rows \<Longrightarrow> print_rows rows = Listing rows"
  by (simp add: print_rows_def)

lemma list_expenses_printable:
  assumes "list_all printable es" and "es \<noteq> []"
  shows "list_expenses st (Some es) limit =
           (st, Listing (slice_to limit (sorted_reverse sort_date es)))"
proof -
  have "set (slice_to limit (sorted_reverse sort_date es)) \<subseteq> set es"
    using set_slice_to [of limit "sorted_reverse sort_date es"]
    by (simp add: set_sorted_reverse)
  with assms(1) have "list_all printable (slice_to limit (sorted_reverse sort_date es))"
    by (auto simp: list_all_iff)
  then show ?thesis using assms(2) by (simp add: list_expenses_def print_rows_printable)
qed

lemma write_rows_printable:
  "list_all printable es \<Longrightarrow>
   \<exists>rows. write_rows es = (rows, None) \<and> map expense_row es = map Inr rows"
proof (induction es)
  case Nil
  show ?case by simp
next
  case (Cons e es)
  then obtain rows where rows: "write_rows es = (rows, None)" "map expense_row es = map Inr rows"
    by auto
  from Cons.prems obtain s where "py_str_int (id' e) = Some s"
    by (auto simp: printable_def)
  then obtain r where r: "expense_row e = Inr r" by (simp add: expense_row_def)
  with rows show ?case by simp
qed

lemma delete_expense_filter:
  assumes "load_expenses st = (st1, Inr es)" and "es \<noteq> []"
    and "py_int (py_strip answer) = Some eid"
  shows "delete_expense st answer =
    (if length (filter (\<lambda>e. id' e \<noteq> eid) es) = length es then (st, Not_found)
     else (fst (save_expenses (filter (\<lambda>e. id' e \<noteq> eid) es) st),
           case snd (save_expenses (filter (\<lambda>e. id' e \<noteq> eid) es) st) of
             None \<Rightarrow> Deleted eid | Some err \<Rightarrow> Delete_error err))"
proof -
  have st: "st1 = st" using assms(1,2) by (rule load_nonempty_store)
  have p: "list_all printable es" using assms(1) by (rule load_expenses_printable)
  show ?thesis
    using assms st list_expenses_printable [OF p assms(2), of st 50]
    by (simp add: delete_expense_def Let_def split: prod.splits option.splits)
qed


text \<open>
  Claim C4. Let the load return the records \<open>es\<close>, with ids that are all different, and let
  the answer to the prompt be read as the id \<open>eid\<close>. If a record has that id, the command
  writes the other records, unchanged and in their order, and reports the deletion: the
  store then holds the header and one row for each of them, one record fewer than before,
  none with the id \<open>eid\<close>. If no record has that id, nothing is written and the store is the
  one that the load left, which is the store before the command when the file existed; the
  command reports that no expense has that id. It asks for an id only when there is a
  record: on an empty collection it says that there is nothing to delete.
\<close>

theorem delete_expense_spec:
  assumes l: "load_expenses st = (st1, Inr es)"
    and d: "distinct (map id' es)" and a: "py_int (py_strip answer) = Some eid"
  shows "(eid \<in> id' ` set es \<longrightarrow>
           (\<exists>ys x zs rows. es = ys @ x # zs \<and> id' x = eid \<and>
              delete_expense st answer = (Some (FIELDNAMES # rows), Deleted eid) \<and>
              save_expenses (ys @ zs) st1 = (Some (FIELDNAMES # rows), None) \<and>
              map expense_row (ys @ zs) = map Inr rows \<and>
              length (ys @ zs) = length es - 1 \<and> eid \<notin> id' ` set (ys @ zs))) \<and>
         (eid \<notin> id' ` set es \<longrightarrow>
            fst (delete_expense st answer) = st1 \<and> (st \<noteq> None \<longrightarrow> st1 = st) \<and>
            snd (delete_expense st answer) =
              (if es = [] then No_expenses_to_delete else Not_found))"
proof (intro conjI impI)
  assume "eid \<in> id' ` set es"
  then obtain x where x: "x \<in> set es" "id' x = eid" by auto
  then have ne: "es \<noteq> []" by auto
  have st: "st1 = st" using l ne by (rule load_nonempty_store)
  from filter_remove_distinct [OF d x(1)] x(2) obtain ys zs
    where s: "es = ys @ x # zs" and f: "filter (\<lambda>e. id' e \<noteq> eid) es = ys @ zs" by auto
  have len: "length (ys @ zs) = length es - 1" using s by simp
  have neq: "length (ys @ zs) \<noteq> length es" using s by simp
  have "list_all printable es" using l by (rule load_expenses_printable)
  then have "list_all printable (ys @ zs)" using s by simp
  from write_rows_printable [OF this] obtain rows
    where w: "write_rows (ys @ zs) = (rows, None)"
      and m: "map expense_row (ys @ zs) = map Inr rows" by blast
  have sv: "save_expenses (ys @ zs) st1 = (Some (FIELDNAMES # rows), None)"
    using w by (simp add: save_expenses_def)
  have del: "delete_expense st answer = (Some (FIELDNAMES # rows), Deleted eid)"
    using delete_expense_filter [OF l ne a] f neq sv st by simp
  have "eid \<notin> id' ` set (filter (\<lambda>e. id' e \<noteq> eid) es)" by auto
  with f have absent: "eid \<notin> id' ` set (ys @ zs)" by simp
  show "\<exists>ys x zs rows. es = ys @ x # zs \<and> id' x = eid \<and>
              delete_expense st answer = (Some (FIELDNAMES # rows), Deleted eid) \<and>
              save_expenses (ys @ zs) st1 = (Some (FIELDNAMES # rows), None) \<and>
              map expense_row (ys @ zs) = map Inr rows \<and>
              length (ys @ zs) = length es - 1 \<and> eid \<notin> id' ` set (ys @ zs)"
    using s x(2) del sv m len absent by blast
next
  assume n: "eid \<notin> id' ` set es"
  then have f: "filter (\<lambda>e. id' e \<noteq> eid) es = es" by (auto simp: filter_id_conv)
  show "fst (delete_expense st answer) = st1"
  proof (cases "es = []")
    case True
    then show ?thesis using l by (simp add: delete_expense_def)
  next
    case False
    with delete_expense_filter [OF l False a] f load_nonempty_store [OF l False]
    show ?thesis by simp
  qed
next
  assume "eid \<notin> id' ` set es" and "st \<noteq> None"
  then show "st1 = st" using l
    by (auto simp: load_expenses_def ensure_file_def Let_def split: option.splits)
next
  assume n: "eid \<notin> id' ` set es"
  then have f: "filter (\<lambda>e. id' e \<noteq> eid) es = es" by (auto simp: filter_id_conv)
  show "snd (delete_expense st answer) = (if es = [] then No_expenses_to_delete else Not_found)"
  proof (cases "es = []")
    case True
    then show ?thesis using l by (simp add: delete_expense_def)
  next
    case False
    with delete_expense_filter [OF l False a] f show ?thesis by simp
  qed
qed

lemma int_answer_3: "py_int (py_strip '' 3'') = Some 3"
  by code_simp

lemma int_answer_9: "py_int (py_strip ''9'') = Some 9"
  by code_simp

lemma delete_3_store73: "delete_expense store73 '' 3'' = (store7, Deleted 3)"
  unfolding store73_def store7_def by code_simp

theorem delete_expense_spec_witness:
  "load_expenses store73 = (store73, Inr [rec7, rec3]) \<and>
   distinct (map id' [rec7, rec3]) \<and>
   py_int (py_strip '' 3'') = Some 3 \<and> 3 \<in> id' ` set [rec7, rec3] \<and>
   (\<exists>ys x zs rows. [rec7, rec3] = ys @ x # zs \<and> id' x = 3 \<and>
      delete_expense store73 '' 3'' = (Some (FIELDNAMES # rows), Deleted 3) \<and>
      save_expenses (ys @ zs) store73 = (Some (FIELDNAMES # rows), None) \<and>
      length (ys @ zs) = 1 \<and> 3 \<notin> id' ` set (ys @ zs)) \<and>
   delete_expense store73 '' 3'' = (store7, Deleted 3) \<and>
   py_int (py_strip ''9'') = Some 9 \<and> 9 \<notin> id' ` set [rec7, rec3] \<and> store73 \<noteq> None \<and>
   delete_expense store73 ''9'' = (store73, Not_found) \<and>
   load_expenses None = (Some [FIELDNAMES], Inr []) \<and> distinct (map id' []) \<and>
   9 \<notin> id' ` set [] \<and>
   delete_expense None ''9'' = (Some [FIELDNAMES], No_expenses_to_delete)"
proof -
  have d: "distinct (map id' [rec7, rec3])" by (simp add: rec7_def rec3_def)
  have in3: "3 \<in> id' ` set [rec7, rec3]" by (simp add: rec3_def)
  have out9: "9 \<notin> id' ` set [rec7, rec3]" by (simp add: rec7_def rec3_def)
  have ne: "store73 \<noteq> None" by (simp add: store73_def)
  from delete_expense_spec [OF load_store73 d int_answer_3] in3
  have p: "\<exists>ys x zs rows. [rec7, rec3] = ys @ x # zs \<and> id' x = 3 \<and>
      delete_expense store73 '' 3'' = (Some (FIELDNAMES # rows), Deleted 3) \<and>
      save_expenses (ys @ zs) store73 = (Some (FIELDNAMES # rows), None) \<and>
      length (ys @ zs) = 1 \<and> 3 \<notin> id' ` set (ys @ zs)"
    by auto
  from delete_expense_spec [OF load_store73 d int_answer_9] out9
  have q: "delete_expense store73 ''9'' = (store73, Not_found)"
    by (simp add: prod_eq_iff)
  have d0: "distinct (map id' [])" by simp
  from delete_expense_spec [OF load_expenses_None d0 int_answer_9]
  have r: "delete_expense None ''9'' = (Some [FIELDNAMES], No_expenses_to_delete)"
    by (simp add: prod_eq_iff)
  show ?thesis
    using load_store73 d int_answer_3 in3 p delete_3_store73 int_answer_9 out9 ne q
      load_expenses_None r
    by simp
qed

end
